theory Spec2Isabelle
  imports Main "HOL-Library.Word"
begin

section \<open>Errors, panics and outcomes\<close>

text \<open>
  A Go \<open>error\<close> value. \<open>ErrDocumentRemoved\<close> is the sentinel of package document;
  \<open>Error m\<close> is any other error, carried by its message; \<open>Errorf m e\<close> is the value
  \<open>fmt.Errorf\<close> builds with the verb \<open>%w\<close>: the formatted text before the colon and
  the wrapped error.
\<close>

datatype error = ErrDocumentRemoved | Error string | Errorf string error

text \<open>
  What a panic carries: the error handed to \<open>panic(err)\<close>, the run-time error of a failed
  type assertion \<open>x.(string)\<close>, or the run-time error of a nil pointer dereference.
\<close>

datatype panic = PanicError error | PanicTypeAssertion | PanicNilDereference

text \<open>A call either panics or returns a value.\<close>

datatype 'a outcome = Panic panic | Return 'a

section \<open>The change message (messageFromMsgAndArgs)\<close>

text \<open>
  The values a caller can pass in \<open>msgAndArgs ...interface{}\<close>: nil, booleans, integers,
  strings, and slices of such values.
\<close>

datatype go_value =
    VNil
  | VBool bool
  | VInt int
  | VString string
  | VSlice "go_value list"

text \<open>Decimal digits of a natural number, as \<open>strconv\<close> prints them.\<close>

fun decimal :: "nat \<Rightarrow> string" where
  "decimal n =
     (if n < 10 then [char_of (48 + n)]
      else decimal (n div 10) @ [char_of (48 + n mod 10)])"

declare decimal.simps [simp del]

text \<open>Go's \<open>strings.Join\<close> with a single space as separator.\<close>

fun join_space :: "string list \<Rightarrow> string" where
  "join_space [] = []"
| "join_space [s] = s"
| "join_space (s # t # ts) = s @ '' '' @ join_space (t # ts)"

text \<open>
  \<open>fmt.Sprintf("%+v", v)\<close> on the values above: a string prints as it is, nil as
  \<open><nil>\<close>, a slice as its elements between brackets, separated by spaces.
\<close>

fun Sprintf_plus_v :: "go_value \<Rightarrow> string" where
  "Sprintf_plus_v VNil = ''<nil>''"
| "Sprintf_plus_v (VBool b) = (if b then ''true'' else ''false'')"
| "Sprintf_plus_v (VInt i) = (if i < 0 then ''-'' @ decimal (nat (- i)) else decimal (nat i))"
| "Sprintf_plus_v (VString s) = s"
| "Sprintf_plus_v (VSlice vs) = ''['' @ join_space (map Sprintf_plus_v vs) @ '']''"

text \<open>
  \<open>messageFromMsgAndArgs\<close>, the same text in both versions of the file. The parameter
  \<open>sprintf\<close> stands for \<open>fmt.Sprintf\<close> with a caller-supplied format string. With two
  or more arguments the first one is asserted to be a string (\<open>msgAndArgs[0].(string)\<close>),
  which panics when it is not.
\<close>

fun messageFromMsgAndArgs ::
  "(string \<Rightarrow> go_value list \<Rightarrow> string) \<Rightarrow> go_value list \<Rightarrow> string outcome" where
  "messageFromMsgAndArgs sprintf [] = Return ''''"
| "messageFromMsgAndArgs sprintf [msg] =
     (case msg of
        VString msgAsStr \<Rightarrow> Return msgAsStr
      | _ \<Rightarrow> Return (Sprintf_plus_v msg))"
| "messageFromMsgAndArgs sprintf (msg # arg # args) =
     (case msg of
        VString format \<Rightarrow> Return (sprintf format (arg # args))
      | _ \<Rightarrow> Panic PanicTypeAssertion)"

text \<open>
  The message \<open>Update\<close> hands to \<open>change.NewContext\<close>.

  In \<open>src/unnamed/part_000\<close> the call is \<open>messageFromMsgAndArgs(msgAndArgs...)\<close>: the
  caller's arguments are spread.

  In \<open>src/pkg/document/document.go\<close> the call is \<open>messageFromMsgAndArgs(msgAndArgs)\<close>:
  the slice itself is the single argument of the variadic function.
\<close>

definition Update_message ::
  "(string \<Rightarrow> go_value list \<Rightarrow> string) \<Rightarrow> go_value list \<Rightarrow> string outcome" where
  "Update_message sprintf msgAndArgs = messageFromMsgAndArgs sprintf msgAndArgs"

definition Update_message_document_go ::
  "(string \<Rightarrow> go_value list \<Rightarrow> string) \<Rightarrow> go_value list \<Rightarrow> string outcome" where
  "Update_message_document_go sprintf msgAndArgs =
     messageFromMsgAndArgs sprintf [VSlice msgAndArgs]"

section \<open>Backend configuration (server/backend/config.go)\<close>

record Config =
  AdminUser :: string
  AdminPassword :: string
  SecretKey :: string
  AdminTokenDuration :: string
  UseDefaultProject :: bool
  SnapshotThreshold :: "64 word"
  SnapshotInterval :: "64 word"
  AuthWebhookMaxRetries :: "64 word"
  AuthWebhookMaxWaitInterval :: string
  AuthWebhookCacheSize :: int
  AuthWebhookCacheAuthTTL :: string
  AuthWebhookCacheUnauthTTL :: string

text \<open>A \<open>time.Duration\<close>: a signed 64-bit count of nanoseconds.\<close>

type_synonym Duration = "64 word"

text \<open>
  \<open>time.ParseDuration\<close> belongs to Go's standard library. Its first lines are written
  out: an optional sign is consumed, then the string \<open>0\<close> is the zero duration and the
  empty string is an error. Everything after that (the loop over number and unit pairs) is
  the parameter \<open>units\<close>, which receives the original string, the sign and what is left.
\<close>

definition quote :: "string \<Rightarrow> string" where
  "quote s = [CHR 0x22] @ s @ [CHR 0x22]"

definition ParseDuration ::
  "(string \<Rightarrow> bool \<Rightarrow> string \<Rightarrow> error + Duration) \<Rightarrow> string \<Rightarrow> error + Duration" where
  "ParseDuration units orig =
     (let (neg, s) =
            (case orig of
               c # cs \<Rightarrow> if c = CHR ''-'' \<or> c = CHR ''+'' then (c = CHR ''-'', cs) else (False, orig)
             | [] \<Rightarrow> (False, orig))
      in if s = ''0'' then Inr 0
         else if s = '''' then Inl (Error (''time: invalid duration '' @ quote orig))
         else units orig neg s)"

text \<open>
  \<open>Config.Validate\<close>. The parameter \<open>parse\<close> is \<open>time.ParseDuration\<close>. The result is
  the returned error, \<open>None\<close> for nil.
\<close>

definition Validate :: "(string \<Rightarrow> error + Duration) \<Rightarrow> Config \<Rightarrow> error option" where
  "Validate parse c =
     (case parse (AuthWebhookMaxWaitInterval c) of
        Inl err \<Rightarrow>
          Some (Errorf (''invalid argument '' @ quote (AuthWebhookMaxWaitInterval c)
                        @ '' for '' @ quote ''--auth-webhook-max-wait-interval'' @ '' flag'') err)
      | Inr _ \<Rightarrow>
     (case parse (AuthWebhookCacheAuthTTL c) of
        Inl err \<Rightarrow>
          Some (Errorf (''invalid argument '' @ quote (AuthWebhookCacheAuthTTL c)
                        @ '' for '' @ quote ''--auth-webhook-cache-auth-ttl'' @ '' flag'') err)
      | Inr _ \<Rightarrow>
     (case parse (AuthWebhookCacheUnauthTTL c) of
        Inl err \<Rightarrow>
          Some (Errorf (''invalid argument '' @ quote (AuthWebhookCacheUnauthTTL c)
                        @ '' for '' @ quote ''--auth-webhook-cache-unauth-ttl'' @ '' flag'') err)
      | Inr _ \<Rightarrow> None)))"

text \<open>\<open>Config.ParseAdminTokenDuration\<close>: panics with the parse error.\<close>

definition ParseAdminTokenDuration ::
  "(string \<Rightarrow> error + Duration) \<Rightarrow> Config \<Rightarrow> Duration outcome" where
  "ParseAdminTokenDuration parse c =
     (case parse (AdminTokenDuration c) of
        Inl err \<Rightarrow> Panic (PanicError err)
      | Inr result \<Rightarrow> Return result)"

section \<open>The document data model\<close>

text \<open>
  Packages \<open>change\<close>, \<open>crdt\<close>, \<open>innerpresence\<close> and \<open>time\<close>, and the type
  \<open>InternalDocument\<close>, are used by the document facade but their files are not among
  the sources. Their data is modelled from the specification (sections 3 and 6); the
  element graph, the presence map and the operations stay abstract: \<open>'r\<close> is
  \<open>crdt.Root\<close>, \<open>'p\<close> is \<open>innerpresence.Map\<close> and \<open>'o\<close> is one operation.
\<close>

datatype StatusType = StatusDetached | StatusAttached | StatusRemoved

text \<open>Modelled from the spec: a ticket is (lamport: u64, delimiter: u32, actorID).\<close>

type_synonym Ticket = "64 word \<times> 32 word \<times> string"

text \<open>\<open>innerpresence.Presence\<close> is a \<open>map[string]string\<close>, kept as its entries.\<close>

type_synonym Presence = "(string \<times> string) list"

text \<open>Modelled from the spec: the checkpoint is (serverSeq: u64, clientSeq: u32).\<close>

record Checkpoint =
  ServerSeq :: "64 word"
  ClientSeq :: "32 word"

text \<open>
  Modelled from the spec: the change ID is
  (clientSeq: u32, serverSeq: u64, lamport: u64, actorID).
\<close>

record ChangeID =
  clientSeq :: "32 word"
  serverSeq :: "64 word"
  lamport :: "64 word"
  actorID :: string

text \<open>
  Modelled from the spec: a change is (id, message, operations, presenceChange), the
  presence change being an optional full replacement of the actor's presence.
\<close>

record 'o Change =
  id' :: ChangeID
  message :: string
  operations :: "'o list"
  presenceChange :: "Presence option"

text \<open>
  Modelled from the spec: the change context holds (id, message, operations,
  presenceChange) of the update in progress. Its reference to the clone root is not a field
  here: the clone root is passed along with the context.
\<close>

record 'o Context =
  ctx_id :: ChangeID
  ctx_message :: string
  ctx_operations :: "'o list"
  ctx_presenceChange :: "Presence option"

text \<open>\<open>DocEvent\<close> and \<open>DocEventType\<close> of \<open>src/unnamed/part_000\<close>.\<close>

datatype DocEventType = WatchedEvent | PresenceChangedEvent

record DocEvent =
  Type :: DocEventType
  Presences :: "(string \<times> Presence) list"

text \<open>Modelled from the spec: the change pack envelope of section 6.\<close>

record 'o Pack =
  DocumentKey :: string
  Checkpoint :: Checkpoint
  Changes :: "'o Change list"
  Snapshot :: "8 word list"
  MinSyncedTicket :: Ticket
  IsRemoved :: bool

text \<open>
  Modelled from the spec: the internal document is the authoritative replica, with the
  fields the facade reads and writes (\<open>d.doc.key\<close>, \<open>d.doc.status\<close>, ...).
\<close>

record ('r, 'p, 'o) InternalDocument =
  key :: string
  status :: StatusType
  checkpoint :: Checkpoint
  changeID :: ChangeID
  root :: 'r
  presences :: 'p
  localChanges :: "'o Change list"

text \<open>
  The struct \<open>Document\<close> of \<open>src/unnamed/part_000\<close>. A nil clone field is \<open>None\<close>.
  The field \<open>events\<close> lists, oldest first, the events sent on the channel; the capacity
  of the channel and its reader are not modelled.
\<close>

record ('r, 'p, 'o) Document =
  doc :: "('r, 'p, 'o) InternalDocument"
  cloneRoot :: "'r option"
  clonePresences :: "'p option"
  events :: "DocEvent list"

text \<open>
  The functions of the absent packages that the facade calls, as parameters. Go passes
  roots and presence maps by pointer and the callee mutates them in place, so a call that
  can fail returns the state it leaves behind together with its error.
  \<^item> \<open>DeepCopy\<close>: \<open>crdt.Root.DeepCopy\<close>, which can fail.
  \<^item> \<open>DeepCopyPresences\<close>: \<open>innerpresence.Map.DeepCopy\<close>.
  \<^item> \<open>LoadOrStore\<close>: \<open>innerpresence.Map.LoadOrStore\<close>.
  \<^item> \<open>Execute\<close>: \<open>change.Change.Execute(root, presences)\<close>.
  \<^item> \<open>GarbageCollectRoot\<close>: \<open>crdt.Root.GarbageCollect\<close>, returning the purge count.
  \<^item> \<open>decodeSnapshot\<close>: the decoder \<open>applySnapshot\<close> uses, giving the root, the presences
    and the snapshot's high-water lamport.
  \<^item> \<open>presenceEvents\<close>: the events \<open>ApplyChanges\<close> collects for one change.
\<close>

record ('r, 'p, 'o) crdt =
  DeepCopy :: "'r \<Rightarrow> error + 'r"
  DeepCopyPresences :: "'p \<Rightarrow> 'p"
  LoadOrStore :: "string \<Rightarrow> Presence \<Rightarrow> 'p \<Rightarrow> 'p"
  Execute :: "'o Change \<Rightarrow> 'r \<Rightarrow> 'p \<Rightarrow> ('r \<times> 'p) \<times> error option"
  GarbageCollectRoot :: "Ticket \<Rightarrow> 'r \<Rightarrow> error + ('r \<times> int)"
  decodeSnapshot :: "8 word list \<Rightarrow> error + ('r \<times> 'p \<times> 64 word)"
  presenceEvents :: "'o Change \<Rightarrow> 'p \<Rightarrow> DocEvent list"

text \<open>
  The user's callback \<open>updater(root, p)\<close>. It reaches the clone root, the clone presences
  and the change context through its two proxies, and may change all three before it
  returns its error.
\<close>

type_synonym ('r, 'p, 'o) updater =
  "'r \<Rightarrow> 'p \<Rightarrow> 'o Context \<Rightarrow> ('r \<times> 'p \<times> 'o Context) \<times> error option"

section \<open>Operations of the absent packages\<close>

text \<open>
  Modelled from the spec: \<open>Checkpoint.Forward(other)\<close> returns
  (max(serverSeq), max(clientSeq)).
\<close>

definition Forward :: "Checkpoint \<Rightarrow> Checkpoint \<Rightarrow> Checkpoint" where
  "Forward cp other =
     \<lparr>ServerSeq = max (ServerSeq cp) (ServerSeq other),
      ClientSeq = max (ClientSeq cp) (ClientSeq other)\<rparr>"

text \<open>Modelled from the spec: \<open>ChangeID.Next()\<close> increments clientSeq and lamport.\<close>

definition Next :: "ChangeID \<Rightarrow> ChangeID" where
  "Next i = i\<lparr>clientSeq := clientSeq i + 1, lamport := lamport i + 1\<rparr>"

text \<open>
  Modelled from the spec: \<open>ChangeID.SyncLamport(remote)\<close> advances lamport to
  max(local, remote) + 1.
\<close>

definition SyncLamport :: "ChangeID \<Rightarrow> 64 word \<Rightarrow> ChangeID" where
  "SyncLamport i remote = i\<lparr>lamport := max (lamport i) remote + 1\<rparr>"

text \<open>
  Modelled from the spec: \<open>change.NewContext(id, message, root)\<close> starts a context with
  no operation and no presence change.
\<close>

definition NewContext :: "ChangeID \<Rightarrow> string \<Rightarrow> 'o Context" where
  "NewContext i msg =
     \<lparr>ctx_id = i, ctx_message = msg, ctx_operations = [], ctx_presenceChange = None\<rparr>"

text \<open>
  Modelled from the spec: \<open>Context.HasChange()\<close> holds when the context recorded any
  change (operations non-empty or presence changed).
\<close>

definition HasChange :: "'o Context \<Rightarrow> bool" where
  "HasChange ctx = (ctx_operations ctx \<noteq> [] \<or> ctx_presenceChange ctx \<noteq> None)"

text \<open>Modelled from the spec: \<open>Context.ToChange()\<close> freezes the context into a change.\<close>

definition ToChange :: "'o Context \<Rightarrow> 'o Change" where
  "ToChange ctx =
     \<lparr>id' = ctx_id ctx, message = ctx_message ctx, operations = ctx_operations ctx,
      presenceChange = ctx_presenceChange ctx\<rparr>"

text \<open>Modelled from the spec: \<open>Change.ClientSeq()\<close> is the clientSeq of the change's ID.\<close>

definition Change_ClientSeq :: "'o Change \<Rightarrow> 32 word" where
  "Change_ClientSeq c = clientSeq (id' c)"

text \<open>
  Modelled from the spec: \<open>InternalDocument.HasLocalChanges()\<close> tells whether the local
  change log is non-empty.
\<close>

definition HasLocalChanges :: "('r, 'p, 'o) InternalDocument \<Rightarrow> bool" where
  "HasLocalChanges idoc = (length (localChanges idoc) > 0)"

text \<open>
  Modelled from the spec: \<open>InternalDocument.ActorID()\<close> is the actor of the document's
  change ID.
\<close>

definition ActorID :: "('r, 'p, 'o) InternalDocument \<Rightarrow> string" where
  "ActorID idoc = actorID (changeID idoc)"

text \<open>Modelled from the spec: \<open>InternalDocument.SetStatus\<close> sets the status field.\<close>

definition SetStatus ::
  "StatusType \<Rightarrow> ('r, 'p, 'o) InternalDocument \<Rightarrow> ('r, 'p, 'o) InternalDocument" where
  "SetStatus s idoc = idoc\<lparr>status := s\<rparr>"

text \<open>
  Modelled from the spec: \<open>InternalDocument.applySnapshot(bytes, serverSeq)\<close> decodes the
  bytes into a fresh (root, presences) pair, replaces the authoritative pair, rebuilds
  \<open>changeID.lamport\<close> to the snapshot's high-water lamport and sets
  \<open>checkpoint.serverSeq\<close> (clientSeq unchanged); it does not clear \<open>localChanges\<close>.
  When the bytes do not decode, the error is returned and nothing is replaced.
\<close>

definition applySnapshot ::
  "('r, 'p, 'o) crdt \<Rightarrow> 8 word list \<Rightarrow> 64 word \<Rightarrow> ('r, 'p, 'o) InternalDocument
   \<Rightarrow> ('r, 'p, 'o) InternalDocument \<times> error option" where
  "applySnapshot lib snapshot srvSeq idoc =
     (case decodeSnapshot lib snapshot of
        Inl err \<Rightarrow> (idoc, Some err)
      | Inr (r, p, l) \<Rightarrow>
          (idoc\<lparr>root := r, presences := p,
                changeID := (changeID idoc)\<lparr>lamport := l\<rparr>,
                checkpoint := (checkpoint idoc)\<lparr>ServerSeq := srvSeq\<rparr>\<rparr>, None))"

text \<open>
  Modelled from the spec: \<open>InternalDocument.ApplyChanges(changes...)\<close> executes the
  changes against the authoritative root and presences, in pack order, collecting the
  presence events, and synchronises the lamport with each remote change. It stops at the
  first change whose execution fails and returns that error; what the earlier changes and
  the failed one did to the root and the presences stays done.
\<close>

fun ApplyChanges ::
  "('r, 'p, 'o) crdt \<Rightarrow> 'o Change list \<Rightarrow> ('r, 'p, 'o) InternalDocument
   \<Rightarrow> ('r, 'p, 'o) InternalDocument \<times> (error + DocEvent list)" where
  "ApplyChanges lib [] idoc = (idoc, Inr [])"
| "ApplyChanges lib (c # cs) idoc =
     (case Execute lib c (root idoc) (presences idoc) of
        ((r, p), Some err) \<Rightarrow> (idoc\<lparr>root := r, presences := p\<rparr>, Inl err)
      | ((r, p), None) \<Rightarrow>
          (case ApplyChanges lib cs
                  (idoc\<lparr>root := r, presences := p,
                        changeID := SyncLamport (changeID idoc) (lamport (id' c))\<rparr>) of
             (idoc', Inl err) \<Rightarrow> (idoc', Inl err)
           | (idoc', Inr es) \<Rightarrow> (idoc', Inr (presenceEvents lib c (presences idoc) @ es))))"

text \<open>
  Modelled from the spec: \<open>InternalDocument.GarbageCollect(ticket)\<close> delegates to the
  authoritative root and returns its purge count.
\<close>

definition InternalDocument_GarbageCollect ::
  "('r, 'p, 'o) crdt \<Rightarrow> Ticket \<Rightarrow> ('r, 'p, 'o) InternalDocument
   \<Rightarrow> error + (('r, 'p, 'o) InternalDocument \<times> int)" where
  "InternalDocument_GarbageCollect lib ticket idoc =
     (case GarbageCollectRoot lib ticket (root idoc) of
        Inl err \<Rightarrow> Inl err
      | Inr (r, n) \<Rightarrow> Inr (idoc\<lparr>root := r\<rparr>, n))"

section \<open>The document facade (src/unnamed/part_000)\<close>

text \<open>\<open>Document.ensureClone\<close>: the document it leaves and the error it returns.\<close>

definition ensureClone ::
  "('r, 'p, 'o) crdt \<Rightarrow> ('r, 'p, 'o) Document \<Rightarrow> ('r, 'p, 'o) Document \<times> error option" where
  "ensureClone lib d =
     (case (case cloneRoot d of
              None \<Rightarrow>
                (case DeepCopy lib (root (doc d)) of
                   Inl err \<Rightarrow> Inl err
                 | Inr copiedDoc \<Rightarrow> Inr (d\<lparr>cloneRoot := Some copiedDoc\<rparr>))
            | Some _ \<Rightarrow> Inr d) of
        Inl err \<Rightarrow> (d, Some err)
      | Inr d1 \<Rightarrow>
          (case clonePresences d1 of
             None \<Rightarrow>
               (d1\<lparr>clonePresences := Some (DeepCopyPresences lib (presences (doc d1)))\<rparr>, None)
           | Some _ \<Rightarrow> (d1, None)))"

text \<open>
  \<open>Document.Update\<close>. The result is the document the call leaves and the error it
  returns (\<open>None\<close> for nil), or a panic. \<open>NewPresence()\<close> is the empty presence.
\<close>

definition Update ::
  "('r, 'p, 'o) crdt \<Rightarrow> (string \<Rightarrow> go_value list \<Rightarrow> string) \<Rightarrow> ('r, 'p, 'o) updater
   \<Rightarrow> go_value list \<Rightarrow> ('r, 'p, 'o) Document
   \<Rightarrow> (('r, 'p, 'o) Document \<times> error option) outcome" where
  "Update lib sprintf updater msgAndArgs d =
     (if status (doc d) = StatusRemoved then Return (d, Some ErrDocumentRemoved)
      else
        case ensureClone lib d of
          (d1, Some err) \<Rightarrow> Return (d1, Some err)
        | (d1, None) \<Rightarrow>
       (case Update_message sprintf msgAndArgs of
          Panic p \<Rightarrow> Panic p
        | Return msg \<Rightarrow>
       (case (cloneRoot d1, clonePresences d1) of
          (Some cr, Some cp) \<Rightarrow>
            (case updater cr (LoadOrStore lib (ActorID (doc d1)) [] cp)
                    (NewContext (Next (changeID (doc d1))) msg) of
               ((cr', cp', ctx), Some err) \<Rightarrow>
                 \<comment> \<open>drop cloneRoot because it is contaminated.\<close>
                 Return (d1\<lparr>cloneRoot := None, clonePresences := None\<rparr>, Some err)
             | ((cr', cp', ctx), None) \<Rightarrow>
                 (let d2 = d1\<lparr>cloneRoot := Some cr', clonePresences := Some cp'\<rparr> in
                  if HasChange ctx then
                    (let c = ToChange ctx in
                     case Execute lib c (root (doc d2)) (presences (doc d2)) of
                       ((r, p), Some err) \<Rightarrow>
                         Return (d2\<lparr>doc := (doc d2)\<lparr>root := r, presences := p\<rparr>\<rparr>, Some err)
                     | ((r, p), None) \<Rightarrow>
                         Return (d2\<lparr>doc := (doc d2)
                                   \<lparr>root := r, presences := p,
                                    localChanges := localChanges (doc d2) @ [c],
                                    changeID := ctx_id ctx\<rparr>\<rparr>, None))
                  else Return (d2, None)))
        | _ \<Rightarrow> Panic PanicNilDereference)))"

text \<open>
  \<open>Document.GarbageCollect\<close>: the document it leaves and the count it returns, or the
  panic it raises.
\<close>

definition GarbageCollect ::
  "('r, 'p, 'o) crdt \<Rightarrow> Ticket \<Rightarrow> ('r, 'p, 'o) Document
   \<Rightarrow> (('r, 'p, 'o) Document \<times> int) outcome" where
  "GarbageCollect lib ticket d =
     (case (case cloneRoot d of
              Some cr \<Rightarrow>
                (case GarbageCollectRoot lib ticket cr of
                   Inl err \<Rightarrow> Panic (PanicError err)
                 | Inr (cr', _) \<Rightarrow> Return (d\<lparr>cloneRoot := Some cr'\<rparr>))
            | None \<Rightarrow> Return d) of
        Panic p \<Rightarrow> Panic p
      | Return d1 \<Rightarrow>
          (case InternalDocument_GarbageCollect lib ticket (doc d1) of
             Inl err \<Rightarrow> Panic (PanicError err)
           | Inr (idoc, n) \<Rightarrow> Return (d1\<lparr>doc := idoc\<rparr>, n)))"

text \<open>
  The loop \<open>for _, c := range pack.Changes\<close> of \<open>ApplyChangePack\<close>, which executes
  each change against the clone and returns the first error.
\<close>

fun executeChanges ::
  "('r, 'p, 'o) crdt \<Rightarrow> 'o Change list \<Rightarrow> 'r \<Rightarrow> 'p \<Rightarrow> ('r \<times> 'p) \<times> error option" where
  "executeChanges lib [] cr cp = ((cr, cp), None)"
| "executeChanges lib (c # cs) cr cp =
     (case Execute lib c cr cp of
        ((cr', cp'), Some err) \<Rightarrow> ((cr', cp'), Some err)
      | ((cr', cp'), None) \<Rightarrow> executeChanges lib cs cr' cp')"

text \<open>
  The loop \<open>for d.HasLocalChanges()\<close> of \<open>ApplyChangePack\<close>: it drops the first local
  change until the log is empty or its first change has a clientSeq above the pack's.
\<close>

fun removeLocalChanges :: "32 word \<Rightarrow> 'o Change list \<Rightarrow> 'o Change list" where
  "removeLocalChanges cseq [] = []"
| "removeLocalChanges cseq (c # cs) =
     (if Change_ClientSeq c > cseq then c # cs else removeLocalChanges cseq cs)"

text \<open>
  Step 01 of \<open>ApplyChangePack\<close>: the snapshot or the changes are applied. The result is
  the document the step leaves and the error on which \<open>ApplyChangePack\<close> returns early.
\<close>

definition ApplyChangePack_01 ::
  "('r, 'p, 'o) crdt \<Rightarrow> 'o Pack \<Rightarrow> ('r, 'p, 'o) Document
   \<Rightarrow> (('r, 'p, 'o) Document \<times> error option) outcome" where
  "ApplyChangePack_01 lib pack d =
     (if length (Snapshot pack) > 0 then
        (let d1 = d\<lparr>cloneRoot := None, clonePresences := None\<rparr> in
         case applySnapshot lib (Snapshot pack) (ServerSeq (Checkpoint pack)) (doc d1) of
           (idoc, Some err) \<Rightarrow> Return (d1\<lparr>doc := idoc\<rparr>, Some err)
         | (idoc, None) \<Rightarrow> Return (d1\<lparr>doc := idoc\<rparr>, None))
      else
        case ensureClone lib d of
          (d1, Some err) \<Rightarrow> Return (d1, Some err)
        | (d1, None) \<Rightarrow>
       (case (cloneRoot d1, clonePresences d1) of
          (Some cr, Some cp) \<Rightarrow>
            (case executeChanges lib (Changes pack) cr cp of
               ((cr', cp'), Some err) \<Rightarrow>
                 Return (d1\<lparr>cloneRoot := Some cr', clonePresences := Some cp'\<rparr>, Some err)
             | ((cr', cp'), None) \<Rightarrow>
                 (let d2 = d1\<lparr>cloneRoot := Some cr', clonePresences := Some cp'\<rparr> in
                  case ApplyChanges lib (Changes pack) (doc d2) of
                    (idoc, Inl err) \<Rightarrow> Return (d2\<lparr>doc := idoc\<rparr>, Some err)
                  | (idoc, Inr es) \<Rightarrow>
                      Return (d2\<lparr>doc := idoc, events := events d2 @ es\<rparr>, None)))
        | _ \<Rightarrow> Panic PanicNilDereference))"

text \<open>
  \<open>Document.ApplyChangePack\<close>: step 01, then 02 (remove the local changes applied to the
  server), 03 (update the checkpoint), 04 (garbage collection) and 05 (update the status).
\<close>

definition ApplyChangePack ::
  "('r, 'p, 'o) crdt \<Rightarrow> 'o Pack \<Rightarrow> ('r, 'p, 'o) Document
   \<Rightarrow> (('r, 'p, 'o) Document \<times> error option) outcome" where
  "ApplyChangePack lib pack d =
     (case ApplyChangePack_01 lib pack d of
        Panic p \<Rightarrow> Panic p
      | Return (d1, Some err) \<Rightarrow> Return (d1, Some err)
      | Return (d1, None) \<Rightarrow>
          (let d2 = d1\<lparr>doc := (doc d1)
                      \<lparr>localChanges :=
                         removeLocalChanges (ClientSeq (Checkpoint pack))
                           (localChanges (doc d1))\<rparr>\<rparr>;
               d3 = d2\<lparr>doc := (doc d2)
                      \<lparr>checkpoint := Forward (checkpoint (doc d2)) (Checkpoint pack)\<rparr>\<rparr>
           in case GarbageCollect lib (MinSyncedTicket pack) d3 of
                Panic p \<Rightarrow> Panic p
              | Return (d4, _) \<Rightarrow>
                  Return (if IsRemoved pack
                          then d4\<lparr>doc := SetStatus StatusRemoved (doc d4)\<rparr>
                          else d4, None)))"

section \<open>A small instance for the examples\<close>

text \<open>
  An instance of the parameters on which the examples below run. The root is a list of
  numbers. An operation \<open>n > 0\<close> appends \<open>n\<close>; the operation \<open>0\<close> is rejected with an
  error. Numbers from 100 on are tombstones, removed at lamport \<open>n - 100\<close>.
\<close>

type_synonym list_root = "nat list"
type_synonym list_presences = "(string \<times> Presence) list"

text \<open>The operations of a change, applied in order; the first error stops the run.\<close>

fun list_applyOps :: "nat list \<Rightarrow> list_root \<Rightarrow> list_root \<times> error option" where
  "list_applyOps [] r = (r, None)"
| "list_applyOps (n # ns) r =
     (if n = 0 then (r, Some (Error ''invalid operation''))
      else list_applyOps ns (r @ [n]))"

text \<open>
  \<open>Execute\<close> of the instance: the operations in order, then the presence change is
  installed under the change's actor.
\<close>

definition list_Execute ::
  "nat Change \<Rightarrow> list_root \<Rightarrow> list_presences \<Rightarrow> (list_root \<times> list_presences) \<times> error option" where
  "list_Execute c r p =
     (case list_applyOps (operations c) r of
        (r', Some err) \<Rightarrow> ((r', p), Some err)
      | (r', None) \<Rightarrow>
          ((r', case presenceChange c of
                  None \<Rightarrow> p
                | Some pr \<Rightarrow> (actorID (id' c), pr) # filter (\<lambda>e. fst e \<noteq> actorID (id' c)) p),
           None))"

definition list_lib :: "(list_root, list_presences, nat) crdt" where
  "list_lib =
     \<lparr>DeepCopy = Inr,
      DeepCopyPresences = (\<lambda>p. p),
      LoadOrStore = (\<lambda>k v p. if map_of p k = None then p @ [(k, v)] else p),
      Execute = list_Execute,
      GarbageCollectRoot =
        (\<lambda>ticket r.
           Inr (filter (\<lambda>n. \<not> (100 \<le> n \<and> n - 100 \<le> unat (fst ticket))) r,
                int (length (filter (\<lambda>n. 100 \<le> n \<and> n - 100 \<le> unat (fst ticket)) r)))),
      decodeSnapshot = (\<lambda>bytes. Inr (map unat bytes, [], 0)),
      presenceEvents =
        (\<lambda>c p. case presenceChange c of
                  None \<Rightarrow> []
                | Some pr \<Rightarrow>
                    [\<lparr>Type = PresenceChangedEvent, Presences = [(actorID (id' c), pr)]\<rparr>])\<rparr>"

text \<open>A change of actor \<open>B\<close> with the given clientSeq and operations.\<close>

definition list_change :: "32 word \<Rightarrow> nat list \<Rightarrow> nat Change" where
  "list_change cseq ops =
     \<lparr>id' = \<lparr>clientSeq = cseq, serverSeq = 0, lamport = 1, actorID = ''B''\<rparr>,
      message = '''', operations = ops, presenceChange = None\<rparr>"

text \<open>An attached document of actor \<open>A\<close> with root \<open>[7]\<close> and the given local changes.\<close>

definition list_document :: "nat Change list \<Rightarrow> (list_root, list_presences, nat) Document" where
  "list_document lcs =
     \<lparr>doc = \<lparr>key = ''d1'', status = StatusAttached,
             checkpoint = \<lparr>ServerSeq = 0, ClientSeq = 0\<rparr>,
             changeID = \<lparr>clientSeq = 0, serverSeq = 0, lamport = 0, actorID = ''A''\<rparr>,
             root = [7], presences = [], localChanges = lcs\<rparr>,
      cloneRoot = None, clonePresences = None, events = []\<rparr>"

text \<open>A pack without snapshot, with the given checkpoint clientSeq and changes.\<close>

definition list_pack :: "32 word \<Rightarrow> nat Change list \<Rightarrow> nat Pack" where
  "list_pack cseq cs =
     \<lparr>DocumentKey = ''d1'', Checkpoint = \<lparr>ServerSeq = 5, ClientSeq = cseq\<rparr>,
      Changes = cs, Snapshot = [], MinSyncedTicket = (0, 0, ''''), IsRemoved = False\<rparr>"

text \<open>
  Updaters: \<open>list_updater ops pc err\<close> records the operations \<open>ops\<close> and the presence
  change \<open>pc\<close> in the context, appends the non-zero operations to the clone root,
  installs the presence change in the clone presences, and returns \<open>err\<close>.
\<close>

definition list_updater ::
  "nat list \<Rightarrow> Presence option \<Rightarrow> error option \<Rightarrow> (list_root, list_presences, nat) updater" where
  "list_updater ops pc err r p ctx =
     ((r @ filter (\<lambda>n. n \<noteq> 0) ops,
       (case pc of
          None \<Rightarrow> p
        | Some pr \<Rightarrow>
            (actorID (ctx_id ctx), pr) # filter (\<lambda>e. fst e \<noteq> actorID (ctx_id ctx)) p),
       ctx\<lparr>ctx_operations := ctx_operations ctx @ ops, ctx_presenceChange := pc\<rparr>), err)"

text \<open>
  A configuration whose three webhook durations are \<open>0\<close> and whose
  \<open>AdminTokenDuration\<close> is left empty.
\<close>

definition unset_admin_config :: Config where
  "unset_admin_config =
     \<lparr>AdminUser = ''admin'', AdminPassword = ''admin'', SecretKey = ''yorkie-secret'',
      AdminTokenDuration = '''', UseDefaultProject = True, SnapshotThreshold = 500,
      SnapshotInterval = 1000, AuthWebhookMaxRetries = 10,
      AuthWebhookMaxWaitInterval = ''0'', AuthWebhookCacheSize = 5000,
      AuthWebhookCacheAuthTTL = ''0'', AuthWebhookCacheUnauthTTL = ''0''\<rparr>"

section \<open>Evaluating the examples\<close>

lemmas list_defs =
  ensureClone_def list_lib_def list_document_def list_updater_def list_change_def list_pack_def
  Update_message_def NewContext_def Next_def HasChange_def ToChange_def list_Execute_def
  ActorID_def

section \<open>ensureClone\<close>

lemma ensureClone_doc:
  "ensureClone lib d = (d1, e) \<Longrightarrow> doc d1 = doc d \<and> events d1 = events d"
  by (auto simp add: ensureClone_def split: option.splits sum.splits)

lemma ensureClone_error: "ensureClone lib d = (d1, Some err) \<Longrightarrow> d1 = d"
  by (auto simp add: ensureClone_def split: option.splits sum.splits)

lemma ensureClone_clone:
  "ensureClone lib d = (d1, None) \<Longrightarrow> cloneRoot d1 \<noteq> None \<and> clonePresences d1 \<noteq> None"
  by (auto simp add: ensureClone_def split: option.splits sum.splits)

section \<open>Update: failure\<close>

text \<open>
  Claim C1, as amended. When \<open>Update\<close> returns an error, the internal document is as it
  was before the call, with one exception: when the error comes from executing the change
  on the authoritative root and presences, these two fields are what \<open>Execute\<close> left
  behind (\<open>Update\<close> does not roll them back), and key, status, checkpoint, changeID and
  localChanges are still unchanged. When the updater itself returned the error, that error
  is the one returned, both clone fields are nil and the internal document is unchanged.
\<close>

theorem Update_failure:
  assumes "Update lib sprintf updater msgAndArgs d = Return (d', Some err)"
  shows "(doc d' = doc d \<or>
          (\<exists>c r p. Execute lib c (root (doc d)) (presences (doc d)) = ((r, p), Some err) \<and>
                   doc d' = (doc d)\<lparr>root := r, presences := p\<rparr>)) \<and>
         (\<forall>d1 cr cp msg x e.
            status (doc d) \<noteq> StatusRemoved \<and> ensureClone lib d = (d1, None) \<and>
            Update_message sprintf msgAndArgs = Return msg \<and>
            cloneRoot d1 = Some cr \<and> clonePresences d1 = Some cp \<and>
            updater cr (LoadOrStore lib (ActorID (doc d1)) [] cp)
              (NewContext (Next (changeID (doc d1))) msg) = (x, Some e)
            \<longrightarrow> err = e \<and> cloneRoot d' = None \<and> clonePresences d' = None \<and> doc d' = doc d)"
proof (cases "status (doc d) = StatusRemoved")
  case True
  with assms show ?thesis by (simp add: Update_def)
next
  case False
  obtain d1 e1 where ec: "ensureClone lib d = (d1, e1)" by (cases "ensureClone lib d")
  have d1: "doc d1 = doc d" using ensureClone_doc [OF ec] by simp
  show ?thesis
  proof (cases e1)
    case (Some e)
    with assms False ec have "d' = d1" by (simp add: Update_def)
    with d1 Some ec show ?thesis by simp
  next
    case None
    with assms False ec d1 show ?thesis
      unfolding Update_def
      by (auto simp add: Let_def split: outcome.splits option.splits prod.splits if_splits) blast
  qed
qed

text \<open>
  The updater records the operation 2 and returns the error \<open>boom\<close>: \<open>Update\<close> returns
  \<open>boom\<close>, the clone is dropped and the document is the one before the call.
\<close>

theorem Update_failure_witness:
  "Update list_lib (\<lambda>format args. format) (list_updater [2] None (Some (Error ''boom''))) []
       (list_document [])
     = Return (list_document [], Some (Error ''boom''))
   \<and> cloneRoot (list_document []) = None \<and> clonePresences (list_document []) = None"
proof -
  let ?d = "list_document []"
  let ?d1 = "?d\<lparr>cloneRoot := Some [7], clonePresences := Some []\<rparr>"
  let ?u = "list_updater [2] None (Some (Error ''boom''))"
  have run: "Update list_lib (\<lambda>format args. format) ?u [] ?d = Return (?d, Some (Error ''boom''))"
    by (simp add: Update_def list_defs)
  have pre: "status (doc ?d) \<noteq> StatusRemoved \<and>
     ensureClone list_lib ?d = (?d1, None) \<and>
     Update_message (\<lambda>format args. format) [] = Return '''' \<and>
     cloneRoot ?d1 = Some [7] \<and> clonePresences ?d1 = Some [] \<and>
     ?u [7] (LoadOrStore list_lib (ActorID (doc ?d1)) [] [])
        (NewContext (Next (changeID (doc ?d1))) '''')
       = (([7, 2], [(''A'', [])],
           \<lparr>ctx_id = \<lparr>clientSeq = 1, serverSeq = 0, lamport = 1, actorID = ''A''\<rparr>,
            ctx_message = '''', ctx_operations = [2], ctx_presenceChange = None\<rparr>),
          Some (Error ''boom''))"
    by (simp add: list_defs)
  from Update_failure [OF run, THEN conjunct2, rule_format, OF pre] run
  show ?thesis by simp
qed

text \<open>
  The claim as stated fails when the execution on the authoritative root fails. The updater
  records the operations 1 and 0 and returns nil; \<open>Execute\<close> applies 1 to the
  authoritative root, then rejects 0. \<open>Update\<close> returns that error and the authoritative
  root, \<open>[7]\<close> before the call, is \<open>[7, 1]\<close> after it.
\<close>

theorem Update_failure_counterexample:
  "Update list_lib (\<lambda>format args. format) (list_updater [1, 0] None None) [] (list_document [])
     = Return ((list_document [])
                 \<lparr>doc := (doc (list_document []))\<lparr>root := [7, 1]\<rparr>,
                  cloneRoot := Some [7, 1], clonePresences := Some [(''A'', [])]\<rparr>,
               Some (Error ''invalid operation''))
   \<and> root (doc (list_document [])) = [7]"
  by (simp add: Update_def list_defs)

section \<open>Update: a removed document\<close>

text \<open>
  Claim C4. On a document whose status is Removed, \<open>Update\<close> returns
  \<open>ErrDocumentRemoved\<close> and leaves the whole document (internal document with its local
  changes, clone fields, events) as it was. The result is the same for every updater and
  every argument list: the updater is not called and the message is not computed.
\<close>

theorem Update_removed:
  "status (doc d) = StatusRemoved \<Longrightarrow>
   Update lib sprintf updater msgAndArgs d = Return (d, Some ErrDocumentRemoved)"
  by (simp add: Update_def)

theorem Update_removed_witness:
  "status (doc ((list_document [list_change 1 [3]])
                  \<lparr>doc := (doc (list_document [list_change 1 [3]]))\<lparr>status := StatusRemoved\<rparr>\<rparr>))
     = StatusRemoved \<and>
   Update list_lib (\<lambda>format args. format) (list_updater [2] None None) [VInt 1, VInt 2]
     ((list_document [list_change 1 [3]])
        \<lparr>doc := (doc (list_document [list_change 1 [3]]))\<lparr>status := StatusRemoved\<rparr>\<rparr>)
   = Return ((list_document [list_change 1 [3]])
               \<lparr>doc := (doc (list_document [list_change 1 [3]]))\<lparr>status := StatusRemoved\<rparr>\<rparr>,
             Some ErrDocumentRemoved)"
proof -
  let ?d = "(list_document [list_change 1 [3]])
              \<lparr>doc := (doc (list_document [list_change 1 [3]]))\<lparr>status := StatusRemoved\<rparr>\<rparr>"
  have h: "status (doc ?d) = StatusRemoved" by (simp add: list_document_def)
  from Update_removed [OF h, of list_lib "\<lambda>format args. format" "list_updater [2] None None"
      "[VInt 1, VInt 2]"] h
  show ?thesis by simp
qed

section \<open>Update: events\<close>

text \<open>
  Claim C6, as amended. \<open>Update\<close> publishes no event: whenever it returns, with or without
  an error and whether or not the change includes a presence delta, the events sent on the
  document's channel are those sent before the call.
\<close>

theorem Update_publishes_no_event:
  "Update lib sprintf updater msgAndArgs d = Return (d', res) \<Longrightarrow> events d' = events d"
proof -
  assume run: "Update lib sprintf updater msgAndArgs d = Return (d', res)"
  obtain d1 e1 where ec: "ensureClone lib d = (d1, e1)" by (cases "ensureClone lib d")
  have "events d1 = events d" using ensureClone_doc [OF ec] by simp
  with run ec show ?thesis
    unfolding Update_def
    by (auto simp add: Let_def split: outcome.splits option.splits prod.splits if_splits)
qed

theorem Update_publishes_no_event_witness:
  "Update list_lib (\<lambda>format args. format) (list_updater [4] (Some [(''name'', ''a'')]) None)
       [] (list_document [])
     = Return
         (\<lparr>doc = \<lparr>key = ''d1'', status = StatusAttached,
                  checkpoint = \<lparr>ServerSeq = 0, ClientSeq = 0\<rparr>,
                  changeID = \<lparr>clientSeq = 1, serverSeq = 0, lamport = 1, actorID = ''A''\<rparr>,
                  root = [7, 4], presences = [(''A'', [(''name'', ''a'')])],
                  localChanges =
                    [\<lparr>id' = \<lparr>clientSeq = 1, serverSeq = 0, lamport = 1, actorID = ''A''\<rparr>,
                      message = '''', operations = [4],
                      presenceChange = Some [(''name'', ''a'')]\<rparr>]\<rparr>,
           cloneRoot = Some [7, 4], clonePresences = Some [(''A'', [(''name'', ''a'')])],
           events = []\<rparr>,
          None)
   \<and> events (list_document []) = []"
proof -
  let ?u = "list_updater [4] (Some [(''name'', ''a'')]) None"
  let ?r = "\<lparr>doc = \<lparr>key = ''d1'', status = StatusAttached,
                  checkpoint = \<lparr>ServerSeq = 0, ClientSeq = 0\<rparr>,
                  changeID = \<lparr>clientSeq = 1, serverSeq = 0, lamport = 1, actorID = ''A''\<rparr>,
                  root = [7, 4], presences = [(''A'', [(''name'', ''a'')])],
                  localChanges =
                    [\<lparr>id' = \<lparr>clientSeq = 1, serverSeq = 0, lamport = 1, actorID = ''A''\<rparr>,
                      message = '''', operations = [4],
                      presenceChange = Some [(''name'', ''a'')]\<rparr>]\<rparr>,
           cloneRoot = Some [7, 4], clonePresences = Some [(''A'', [(''name'', ''a'')])],
           events = []\<rparr>"
  have run: "Update list_lib (\<lambda>format args. format) ?u [] (list_document []) = Return (?r, None)"
    by (simp add: Update_def list_defs)
  from Update_publishes_no_event [OF run] run show ?thesis by simp
qed

text \<open>
  The claim as stated fails: the updater below changes the presence of actor \<open>A\<close> only.
  \<open>Update\<close> succeeds, the change it appends carries the presence delta, and no event has
  been sent when it returns.
\<close>

theorem Update_publishes_no_event_counterexample:
  "Update list_lib (\<lambda>format args. format) (list_updater [] (Some [(''cursor'', ''1'')]) None)
       [VString ''m''] (list_document [])
     = Return
         (\<lparr>doc = \<lparr>key = ''d1'', status = StatusAttached,
                  checkpoint = \<lparr>ServerSeq = 0, ClientSeq = 0\<rparr>,
                  changeID = \<lparr>clientSeq = 1, serverSeq = 0, lamport = 1, actorID = ''A''\<rparr>,
                  root = [7], presences = [(''A'', [(''cursor'', ''1'')])],
                  localChanges =
                    [\<lparr>id' = \<lparr>clientSeq = 1, serverSeq = 0, lamport = 1, actorID = ''A''\<rparr>,
                      message = ''m'', operations = [],
                      presenceChange = Some [(''cursor'', ''1'')]\<rparr>]\<rparr>,
           cloneRoot = Some [7], clonePresences = Some [(''A'', [(''cursor'', ''1'')])],
           events = []\<rparr>,
          None)"
  by (simp add: Update_def list_defs)

section \<open>Checkpoint.Forward\<close>

text \<open>
  Claim C7. \<open>Forward\<close> is the componentwise maximum of the two checkpoints; it is
  idempotent and commutative.
\<close>

theorem Forward_componentwise_max:
  "Forward a b = \<lparr>ServerSeq = max (ServerSeq a) (ServerSeq b),
                  ClientSeq = max (ClientSeq a) (ClientSeq b)\<rparr>
   \<and> Forward a a = a
   \<and> Forward a b = Forward b a"
  by (simp add: Forward_def max.commute)

section \<open>The change message in the two versions of Update\<close>

text \<open>
  In \<open>document.go\<close> the message is always the \<open>%+v\<close> rendering of the argument slice,
  whatever the arguments are.
\<close>

lemma Update_message_document_go_renders_slice:
  "Update_message_document_go sprintf msgAndArgs = Return (Sprintf_plus_v (VSlice msgAndArgs))"
  by (simp add: Update_message_document_go_def)

text \<open>
  Claim C9 fails on the code. With no message argument \<open>Update\<close> of \<open>document.go\<close>
  computes the message \<open>[]\<close> where \<open>Update\<close> of \<open>part_000\<close> computes the empty string;
  with the single argument \<open>hello\<close> the former computes \<open>[hello]\<close>, the latter
  \<open>hello\<close>.
\<close>

theorem Update_message_versions_differ:
  "Update_message_document_go sprintf [] = Return ''[]''
   \<and> Update_message sprintf [] = Return ''''
   \<and> Update_message_document_go sprintf [VString ''hello''] = Return ''[hello]''
   \<and> Update_message sprintf [VString ''hello''] = Return ''hello''"
  by (simp add: Update_message_document_go_def Update_message_def)

section \<open>Config.Validate\<close>

text \<open>
  On the configuration \<open>unset_admin_config\<close>, \<open>Validate\<close> returns nil and
  \<open>ParseAdminTokenDuration\<close> panics with the parse error of the empty string.
\<close>

lemma unset_admin_config_panics:
  "Validate (ParseDuration units) unset_admin_config = None \<and>
   ParseAdminTokenDuration (ParseDuration units) unset_admin_config
     = Panic (PanicError (Error (''time: invalid duration '' @ quote '''')))"
  by (simp add: Validate_def ParseAdminTokenDuration_def ParseDuration_def
      unset_admin_config_def)

text \<open>
  Claim C10. \<open>Validate\<close> returns nil exactly when the three webhook duration strings
  parse. Its result does not depend on \<open>AdminTokenDuration\<close>. There is a configuration
  on which \<open>Validate\<close> returns nil and \<open>ParseAdminTokenDuration\<close> panics.
\<close>

theorem Validate_ignores_AdminTokenDuration:
  "(Validate parse c = None) =
     ((\<exists>a. parse (AuthWebhookMaxWaitInterval c) = Inr a) \<and>
      (\<exists>a. parse (AuthWebhookCacheAuthTTL c) = Inr a) \<and>
      (\<exists>a. parse (AuthWebhookCacheUnauthTTL c) = Inr a))
   \<and> Validate parse (c\<lparr>AdminTokenDuration := x\<rparr>) = Validate parse c
   \<and> (\<exists>c'. Validate (ParseDuration units) c' = None \<and>
            (\<exists>e. ParseAdminTokenDuration (ParseDuration units) c' = Panic (PanicError e)))"
proof (intro conjI)
  show "(Validate parse c = None) =
     ((\<exists>a. parse (AuthWebhookMaxWaitInterval c) = Inr a) \<and>
      (\<exists>a. parse (AuthWebhookCacheAuthTTL c) = Inr a) \<and>
      (\<exists>a. parse (AuthWebhookCacheUnauthTTL c) = Inr a))"
    by (auto simp add: Validate_def split: sum.splits)
  show "Validate parse (c\<lparr>AdminTokenDuration := x\<rparr>) = Validate parse c"
    by (simp add: Validate_def split: sum.splits)
  show "\<exists>c'. Validate (ParseDuration units) c' = None \<and>
            (\<exists>e. ParseAdminTokenDuration (ParseDuration units) c' = Panic (PanicError e))"
    using unset_admin_config_panics [of units] by blast
qed

section \<open>ApplyChangePack: what the steps leave unchanged\<close>

lemmas pack_defs =
  ApplyChangePack_def ApplyChangePack_01_def GarbageCollect_def
  InternalDocument_GarbageCollect_def applySnapshot_def Forward_def SetStatus_def
  Change_ClientSeq_def





lemma GarbageCollect_frame:
  "GarbageCollect lib ticket d = Return (d', n) \<Longrightarrow>
   localChanges (doc d') = localChanges (doc d) \<and> checkpoint (doc d') = checkpoint (doc d) \<and>
   status (doc d') = status (doc d) \<and> presences (doc d') = presences (doc d) \<and>
   changeID (doc d') = changeID (doc d) \<and> key (doc d') = key (doc d) \<and>
   events d' = events d \<and> clonePresences d' = clonePresences d \<and>
   (cloneRoot d' = None) = (cloneRoot d = None)"
  by (auto simp add: GarbageCollect_def InternalDocument_GarbageCollect_def
      split: option.splits sum.splits outcome.splits prod.splits)


section \<open>ApplyChangePack: a change that fails on the clone\<close>

text \<open>
  When a change of a pack without snapshot fails on the clone, \<open>ApplyChangePack\<close>
  returns at once: the error is returned, the internal document is untouched, and the
  clone fields hold what the failed run left in them.
\<close>

lemma ApplyChangePack_clone_failure:
  assumes "length (Snapshot pack) = 0"
    and "ensureClone lib d = (d1, None)"
    and "cloneRoot d1 = Some cr" and "clonePresences d1 = Some cp"
    and "executeChanges lib (Changes pack) cr cp = ((cr', cp'), Some err)"
  shows "ApplyChangePack lib pack d
           = Return (d1\<lparr>cloneRoot := Some cr', clonePresences := Some cp'\<rparr>, Some err)
         \<and> doc d1 = doc d"
  using assms ensureClone_doc [OF assms(2)]
  by (simp add: ApplyChangePack_def ApplyChangePack_01_def)

text \<open>
  Claim C2 fails on the code. The pack holds one change with the operations 5, 0 and 6;
  on the clone 5 is applied and 0 is rejected. \<open>ApplyChangePack\<close> returns the error and
  leaves the internal document as it was, but the clone fields are not nil: the clone root
  is the contaminated \<open>[7, 5]\<close>. \<open>Update\<close>, on the same document and with an updater
  that fails, does drop the clone.
\<close>

theorem ApplyChangePack_keeps_contaminated_clone:
  "ApplyChangePack list_lib (list_pack 2 [list_change 1 [5, 0, 6]]) (list_document [])
     = Return ((list_document [])\<lparr>cloneRoot := Some [7, 5], clonePresences := Some []\<rparr>,
               Some (Error ''invalid operation''))
   \<and> cloneRoot (list_document []) = None
   \<and> Update list_lib (\<lambda>format args. format) (list_updater [2] None (Some (Error ''boom''))) []
       ((list_document [])\<lparr>cloneRoot := Some [7, 5], clonePresences := Some []\<rparr>)
     = Return (list_document [], Some (Error ''boom''))"
  by (simp add: pack_defs list_defs Update_def)

section \<open>ApplyChangePack: pruning the local changes\<close>




section \<open>GarbageCollect\<close>



text \<open>
  An error of either garbage collection is a panic; an error on the clone side panics
  before the authoritative root is collected.
\<close>

lemma GarbageCollect_panics:
  "(cloneRoot d = Some cr \<and> GarbageCollectRoot lib ticket cr = Inl err \<longrightarrow>
      GarbageCollect lib ticket d = Panic (PanicError err)) \<and>
   ((cloneRoot d = None \<or> (\<exists>cr x. cloneRoot d = Some cr \<and> GarbageCollectRoot lib ticket cr = Inr x)) \<and>
    GarbageCollectRoot lib ticket (root (doc d)) = Inl err \<longrightarrow>
      GarbageCollect lib ticket d = Panic (PanicError err))"
  by (auto simp add: GarbageCollect_def InternalDocument_GarbageCollect_def)

section \<open>ApplyChangePack: a pack with a snapshot\<close>

text \<open>
  Claim C5. For a pack whose snapshot is non-empty: whenever \<open>ApplyChangePack\<close> returns,
  both clone fields are nil; the result does not depend on the changes of the pack nor on
  \<open>Execute\<close>, so none of the changes is executed; and when the snapshot decodes (and the
  garbage collection of step 04 succeeds) the call returns nil with the authoritative root
  and presences replaced by the decoded ones (the root after the garbage collection of
  step 04), \<open>checkpoint.serverSeq\<close> set to the pack's, and the local changes kept but for
  the pruning of step 02.
\<close>

theorem ApplyChangePack_snapshot:
  assumes "length (Snapshot pack) > 0"
  shows "(\<forall>d' res. ApplyChangePack lib pack d = Return (d', res) \<longrightarrow>
            cloneRoot d' = None \<and> clonePresences d' = None)
       \<and> ApplyChangePack (lib\<lparr>Execute := ex\<rparr>) (pack\<lparr>Changes := cs\<rparr>) d = ApplyChangePack lib pack d
       \<and> (\<forall>r p l r' n.
            decodeSnapshot lib (Snapshot pack) = Inr (r, p, l) \<and>
            GarbageCollectRoot lib (MinSyncedTicket pack) r = Inr (r', n) \<longrightarrow>
            ApplyChangePack lib pack d
              = Return
                  (d\<lparr>cloneRoot := None, clonePresences := None,
                     doc := (doc d)
                       \<lparr>root := r', presences := p,
                        changeID := (changeID (doc d))\<lparr>lamport := l\<rparr>,
                        checkpoint :=
                          \<lparr>ServerSeq = ServerSeq (Checkpoint pack),
                           ClientSeq = max (ClientSeq (checkpoint (doc d)))
                                           (ClientSeq (Checkpoint pack))\<rparr>,
                        localChanges :=
                          removeLocalChanges (ClientSeq (Checkpoint pack))
                            (localChanges (doc d)),
                        status := (if IsRemoved pack then StatusRemoved
                                   else status (doc d))\<rparr>\<rparr>,
                   None))"
proof -
  have clone: "cloneRoot d' = None \<and> clonePresences d' = None"
    if run: "ApplyChangePack lib pack d = Return (d', res)" for d' res
  proof -
  let ?d0 = "d\<lparr>cloneRoot := None, clonePresences := None\<rparr>"
  obtain i e where s: "applySnapshot lib (Snapshot pack) (ServerSeq (Checkpoint pack)) (doc d) = (i, e)"
    by (metis prod.exhaust)
  have s1: "ApplyChangePack_01 lib pack d = Return (?d0\<lparr>doc := i\<rparr>, e)"
    using assms s by (cases e) (simp_all add: ApplyChangePack_01_def)
  show ?thesis
  proof (cases e)
    case (Some err)
    with run s1 show ?thesis by (auto simp add: ApplyChangePack_def)
  next
    case None
    let ?d3 = "?d0\<lparr>doc := i\<lparr>localChanges := removeLocalChanges (ClientSeq (Checkpoint pack))
                                    (localChanges i),
                  checkpoint := Forward (checkpoint i) (Checkpoint pack)\<rparr>\<rparr>"
    from run s1 None obtain d4 n where gc: "GarbageCollect lib (MinSyncedTicket pack) ?d3 = Return (d4, n)"
      and d': "d' = (if IsRemoved pack then d4\<lparr>doc := SetStatus StatusRemoved (doc d4)\<rparr> else d4)"
      by (auto simp add: ApplyChangePack_def Let_def split: outcome.splits prod.splits)
    from GarbageCollect_frame [OF gc] d' show ?thesis by simp
  qed
  qed
  have indep: "ApplyChangePack (lib\<lparr>Execute := ex\<rparr>) (pack\<lparr>Changes := cs\<rparr>) d = ApplyChangePack lib pack d"
  proof -
    have s1: "ApplyChangePack_01 (lib\<lparr>Execute := ex\<rparr>) (pack\<lparr>Changes := cs\<rparr>) d
                = ApplyChangePack_01 lib pack d"
      using assms by (simp add: ApplyChangePack_01_def applySnapshot_def)
    have gc: "GarbageCollect (lib\<lparr>Execute := ex\<rparr>) t x = GarbageCollect lib t x" for t x
      by (simp add: GarbageCollect_def InternalDocument_GarbageCollect_def
          cong: option.case_cong outcome.case_cong sum.case_cong)
    show ?thesis
      by (simp add: ApplyChangePack_def s1 gc
          cong: option.case_cong outcome.case_cong prod.case_cong)
  qed
  have ok: "ApplyChangePack lib pack d
              = Return
                  (d\<lparr>cloneRoot := None, clonePresences := None,
                     doc := (doc d)
                       \<lparr>root := r', presences := p,
                        changeID := (changeID (doc d))\<lparr>lamport := l\<rparr>,
                        checkpoint :=
                          \<lparr>ServerSeq = ServerSeq (Checkpoint pack),
                           ClientSeq = max (ClientSeq (checkpoint (doc d)))
                                           (ClientSeq (Checkpoint pack))\<rparr>,
                        localChanges :=
                          removeLocalChanges (ClientSeq (Checkpoint pack))
                            (localChanges (doc d)),
                        status := (if IsRemoved pack then StatusRemoved
                                   else status (doc d))\<rparr>\<rparr>,
                   None)"
    if "decodeSnapshot lib (Snapshot pack) = Inr (r, p, l) \<and>
        GarbageCollectRoot lib (MinSyncedTicket pack) r = Inr (r', n)" for r p l r' n
    using assms that
    by (simp add: ApplyChangePack_def ApplyChangePack_01_def applySnapshot_def
        GarbageCollect_def InternalDocument_GarbageCollect_def Forward_def SetStatus_def)
  from clone indep ok show ?thesis by blast
qed

theorem ApplyChangePack_snapshot_witness:
  "ApplyChangePack list_lib
     ((list_pack 2 [list_change 9 [5, 0, 6]])\<lparr>Snapshot := [1, 100, 3]\<rparr>)
     ((list_document [list_change 1 [1], list_change 2 [2], list_change 3 [3]])
        \<lparr>cloneRoot := Some [7, 8], clonePresences := Some []\<rparr>)
   = Return
       ((list_document [list_change 3 [3]])
          \<lparr>doc := (doc (list_document [list_change 3 [3]]))
                    \<lparr>root := [1, 3], checkpoint := \<lparr>ServerSeq = 5, ClientSeq = 2\<rparr>\<rparr>\<rparr>,
        None)
   \<and> cloneRoot (list_document [list_change 3 [3]]) = None
   \<and> clonePresences (list_document [list_change 3 [3]]) = None"
proof -
  let ?pack = "(list_pack 2 [list_change 9 [5, 0, 6]])\<lparr>Snapshot := [1, 100, 3]\<rparr>"
  let ?d = "(list_document [list_change 1 [1], list_change 2 [2], list_change 3 [3]])
              \<lparr>cloneRoot := Some [7, 8], clonePresences := Some []\<rparr>"
  have len: "length (Snapshot ?pack) > 0" by (simp add: list_defs)
  have dec: "decodeSnapshot list_lib (Snapshot ?pack) = Inr ([1, 100, 3], [], 0) \<and>
             GarbageCollectRoot list_lib (MinSyncedTicket ?pack) [1, 100, 3] = Inr ([1, 3], 1)"
    by (simp add: list_defs)
  note inst = ApplyChangePack_snapshot [OF len, of list_lib ?d list_Execute "[]"]
  from inst [THEN conjunct2, THEN conjunct2, rule_format, OF dec]
  have run: "ApplyChangePack list_lib ?pack ?d
   = Return
       ((list_document [list_change 3 [3]])
          \<lparr>doc := (doc (list_document [list_change 3 [3]]))
                    \<lparr>root := [1, 3], checkpoint := \<lparr>ServerSeq = 5, ClientSeq = 2\<rparr>\<rparr>\<rparr>,
        None)"
    by (simp add: list_defs Change_ClientSeq_def)
  from inst [THEN conjunct1, rule_format, OF run] run
  show ?thesis by (simp add: list_defs)
qed

end
